theory Spec2Isabelle
  imports Main "HOL-Library.Sublist"
begin

section \<open>Strings\<close>

text \<open>
  A JavaScript string is a sequence of UTF-16 code units. The model is a \<open>string\<close>
  (a list of 8-bit characters), one \<open>char\<close> for one code unit, so it covers the
  strings whose code units are all below 256 (ASCII and Latin-1); \<open>length\<close> is
  the \<open>.length\<close> of the source.
\<close>

text \<open>
  The code units below 256 that ECMAScript counts as white space or line terminator:
  TAB, LF, VT, FF, CR, SPACE and NO-BREAK SPACE. \<open>String.prototype.trim\<close> strips them
  and the regular expression escape \<open>\s\<close> matches them.
\<close>

definition isWhiteSpace :: "char \<Rightarrow> bool" where
  "isWhiteSpace c = ((of_char c :: nat) \<in> {9, 10, 11, 12, 13, 32, 160})"

text \<open>\<open>String.prototype.trim\<close>: white space removed from both ends.\<close>

definition trim :: "string \<Rightarrow> string" where
  "trim s = rev (dropWhile isWhiteSpace (rev (dropWhile isWhiteSpace s)))"

text \<open>
  \<open>String.prototype.toLowerCase\<close> on code units below 256: the letters A to Z and
  the Latin-1 capitals U+00C0 to U+00DE (without the multiplication sign U+00D7) move up
  by 32, every other code unit stays.
\<close>

definition toLowerCaseUnit :: "char \<Rightarrow> char" where
  "toLowerCaseUnit c =
     (let n = (of_char c :: nat)
      in if (65 \<le> n \<and> n \<le> 90) \<or> (192 \<le> n \<and> n \<le> 222 \<and> n \<noteq> 215)
         then char_of (n + 32) else c)"

definition toLowerCase :: "string \<Rightarrow> string" where
  "toLowerCase s = map toLowerCaseUnit s"

text \<open>
  \<open>String.prototype.includes\<close>: the search string occurs at some position of the
  receiver (every string includes the empty string).
\<close>

fun includes_str :: "string \<Rightarrow> string \<Rightarrow> bool" where
  "includes_str [] t = (t = [])"
| "includes_str (c # s) t = (prefix t (c # s) \<or> includes_str s t)"

section \<open>Regular expressions\<close>

text \<open>
  The fragment of the regular expression syntax that \<open>validation.ts\<close> uses: a pattern
  anchored at both ends (\<open>^ ... $\<close>) is a list of pieces; a piece is an atom, or an
  atom under \<open>+\<close>; an atom is a literal character or a negated class \<open>[^...]\<close> whose
  members are literal characters and the escape \<open>\s\<close>.
\<close>

datatype classItem = WhiteSpaceEscape | ClassChar char

datatype atom = Chr char | NoneOf "classItem list"

datatype piece = Once atom | OneOrMore atom

fun inClassItem :: "classItem \<Rightarrow> char \<Rightarrow> bool" where
  "inClassItem WhiteSpaceEscape c = isWhiteSpace c"
| "inClassItem (ClassChar d) c = (c = d)"

fun atomMatches :: "atom \<Rightarrow> char \<Rightarrow> bool" where
  "atomMatches (Chr d) c = (c = d)"
| "atomMatches (NoneOf items) c = (\<not> list_ex (\<lambda>k. inClassItem k c) items)"

text \<open>
  \<open>matchPieces ps s\<close>: the whole of \<open>s\<close> matches the pieces in sequence. A piece under
  \<open>+\<close> takes one character and then either goes on or hands over to the rest of the
  pattern, so every way of splitting the string is tried, as the backtracking matcher does.
\<close>

fun matchPieces :: "piece list \<Rightarrow> string \<Rightarrow> bool" where
  "matchPieces [] s = (s = [])"
| "matchPieces (Once a # ps) [] = False"
| "matchPieces (Once a # ps) (c # s) = (atomMatches a c \<and> matchPieces ps s)"
| "matchPieces (OneOrMore a # ps) [] = False"
| "matchPieces (OneOrMore a # ps) (c # s) =
     (atomMatches a c \<and> (matchPieces (OneOrMore a # ps) s \<or> matchPieces ps s))"

text \<open>\<open>RegExp.prototype.test\<close> for an anchored pattern without flags.\<close>

definition regex_test :: "piece list \<Rightarrow> string \<Rightarrow> bool" where
  "regex_test r s = matchPieces r s"

section \<open>Data model (types/index.ts)\<close>

text \<open>
  The form data come first, so that afterwards the unqualified field names \<open>name\<close>,
  \<open>email\<close>, \<open>courseId\<close> and \<open>profileImage\<close> are those of a student; the fields of the
  form are written \<open>StudentFormData.name\<close> and so on. In the form every field is a string.
\<close>

record StudentFormData =
  name :: string
  email :: string
  courseId :: string
  profileImage :: string

text \<open>
  \<open>ValidationErrors\<close>: an object with the optional keys \<open>name\<close>, \<open>email\<close> and
  \<open>courseId\<close>, as a map from the key to the message.
\<close>

type_synonym ValidationErrors = "string \<rightharpoonup> string"

text \<open>
  \<open>Omit<Student, 'id' | 'createdAt' | 'updatedAt'>\<close> is the record \<open>StudentData\<close>;
  \<open>Student\<close> extends it by the three remaining fields. A \<open>Date\<close> is its time value, in
  milliseconds since the epoch. The field \<open>id\<close> is named \<open>id'\<close>.
\<close>

record StudentData =
  name :: string
  email :: string
  courseId :: int
  profileImage :: "string option"

record Student = StudentData +
  id' :: string
  createdAt :: int
  updatedAt :: int

section \<open>Structural validation (utils/validation.ts)\<close>

text \<open>The pattern \<open>/^[^\s@]+@[^\s@]+\.[^\s@]+$/\<close>.\<close>

definition emailRegex :: "piece list" where
  "emailRegex =
     [OneOrMore (NoneOf [WhiteSpaceEscape, ClassChar CHR ''@'']),
      Once (Chr CHR ''@''),
      OneOrMore (NoneOf [WhiteSpaceEscape, ClassChar CHR ''@'']),
      Once (Chr CHR ''.''),
      OneOrMore (NoneOf [WhiteSpaceEscape, ClassChar CHR ''@''])]"

definition isValidEmail :: "string \<Rightarrow> bool" where
  "isValidEmail e = regex_test emailRegex (trim e)"

text \<open>
  \<open>validateStudent\<close> starts from the empty object and assigns a message under the key
  of each field that fails; an empty string is falsy.
\<close>

definition validateStudent :: "StudentFormData \<Rightarrow> ValidationErrors" where
  "validateStudent formData =
     (let errors = Map.empty;
          errors =
            (if trim (StudentFormData.name formData) = []
             then errors(''name'' \<mapsto> ''Name is required'')
             else if length (trim (StudentFormData.name formData)) < 2
             then errors(''name'' \<mapsto> ''Name must be at least 2 characters'')
             else if length (trim (StudentFormData.name formData)) > 50
             then errors(''name'' \<mapsto> ''Name must be less than 50 characters'')
             else errors);
          errors =
            (if trim (StudentFormData.email formData) = []
             then errors(''email'' \<mapsto> ''Email is required'')
             else if \<not> isValidEmail (StudentFormData.email formData)
             then errors(''email'' \<mapsto> ''Please enter a valid email address'')
             else errors);
          errors =
            (if StudentFormData.courseId formData = [] \<or>
                StudentFormData.courseId formData = ''0''
             then errors(''courseId'' \<mapsto> ''Please select a course'')
             else errors)
      in errors)"

text \<open>\<open>Object.keys(errors).length > 0\<close>.\<close>

definition hasValidationErrors :: "ValidationErrors \<Rightarrow> bool" where
  "hasValidationErrors errors = (card (dom errors) > 0)"

section \<open>The student store (context/StudentContext.tsx)\<close>

record StudentState =
  students :: "Student list"
  searchTerm :: string
  selectedCourseFilter :: "int option"

datatype StudentAction =
    ADD_STUDENT Student
  | UPDATE_STUDENT Student
  | DELETE_STUDENT string
  | SET_SEARCH_TERM string
  | SET_COURSE_FILTER "int option"
  | LOAD_STUDENTS "Student list"

fun studentReducer :: "StudentState \<Rightarrow> StudentAction \<Rightarrow> StudentState" where
  "studentReducer state (ADD_STUDENT payload) =
     state\<lparr>students := students state @ [payload]\<rparr>"
| "studentReducer state (UPDATE_STUDENT payload) =
     state\<lparr>students :=
       map (\<lambda>student. if id' student = id' payload then payload else student)
         (students state)\<rparr>"
| "studentReducer state (DELETE_STUDENT payload) =
     state\<lparr>students := filter (\<lambda>student. id' student \<noteq> payload) (students state)\<rparr>"
| "studentReducer state (SET_SEARCH_TERM payload) = state\<lparr>searchTerm := payload\<rparr>"
| "studentReducer state (SET_COURSE_FILTER payload) =
     state\<lparr>selectedCourseFilter := payload\<rparr>"
| "studentReducer state (LOAD_STUDENTS payload) = state\<lparr>students := payload\<rparr>"

definition initialState :: StudentState where
  "initialState = \<lparr>students = [], searchTerm = [], selectedCourseFilter = None\<rparr>"

text \<open>
  The helpers of the provider build an action and dispatch it. What they read from the
  environment is an argument here: \<open>uuid\<close> is the result of \<open>crypto.randomUUID()\<close>, and
  each \<open>new Date()\<close> is one reading of the clock, in the order of evaluation
  (\<open>addStudent\<close> reads the clock twice, once for each timestamp).
\<close>

definition newStudent :: "StudentData \<Rightarrow> string \<Rightarrow> int \<Rightarrow> int \<Rightarrow> Student" where
  "newStudent studentData uuid now1 now2 =
     \<lparr>name = name studentData, email = email studentData,
      courseId = courseId studentData, profileImage = profileImage studentData,
      id' = uuid, createdAt = now1, updatedAt = now2\<rparr>"

definition addStudent ::
  "StudentData \<Rightarrow> string \<Rightarrow> int \<Rightarrow> int \<Rightarrow> StudentState \<Rightarrow> StudentState" where
  "addStudent studentData uuid now1 now2 state =
     studentReducer state (ADD_STUDENT (newStudent studentData uuid now1 now2))"

definition updateStudent :: "Student \<Rightarrow> int \<Rightarrow> StudentState \<Rightarrow> StudentState" where
  "updateStudent student now state =
     studentReducer state (UPDATE_STUDENT (student\<lparr>updatedAt := now\<rparr>))"

definition deleteStudent :: "string \<Rightarrow> StudentState \<Rightarrow> StudentState" where
  "deleteStudent i state = studentReducer state (DELETE_STUDENT i)"

definition setSearchTerm :: "string \<Rightarrow> StudentState \<Rightarrow> StudentState" where
  "setSearchTerm term state = studentReducer state (SET_SEARCH_TERM term)"

definition setCourseFilter :: "int option \<Rightarrow> StudentState \<Rightarrow> StudentState" where
  "setCourseFilter c state = studentReducer state (SET_COURSE_FILTER c)"

definition getFilteredStudents :: "StudentState \<Rightarrow> Student list" where
  "getFilteredStudents state =
     filter (\<lambda>student.
        let matchesSearch =
              (includes_str (toLowerCase (name student)) (toLowerCase (searchTerm state)) \<or>
               includes_str (toLowerCase (email student)) (toLowerCase (searchTerm state)));
            matchesCourse =
              (selectedCourseFilter state = None \<or>
               Some (courseId student) = selectedCourseFilter state)
        in matchesSearch \<and> matchesCourse)
       (students state)"

section \<open>Sequences of store operations\<close>

text \<open>
  One call of a mutating helper of the provider, with what it reads from the
  environment: \<open>Add studentData uuid now1 now2\<close>, \<open>Update student now\<close>, \<open>Delete i\<close>.
\<close>

datatype StoreOp =
    Add StudentData string int int
  | Update Student int
  | Delete string

fun applyOp :: "StoreOp \<Rightarrow> StudentState \<Rightarrow> StudentState" where
  "applyOp (Add studentData uuid now1 now2) state = addStudent studentData uuid now1 now2 state"
| "applyOp (Update student now) state = updateStudent student now state"
| "applyOp (Delete i) state = deleteStudent i state"

fun runOps :: "StoreOp list \<Rightarrow> StudentState \<Rightarrow> StudentState" where
  "runOps [] state = state"
| "runOps (x # xs) state = runOps xs (applyOp x state)"

text \<open>
  The identifiers are fresh: each \<open>Add\<close> of the sequence draws an id that no record of
  the store carries at that moment.
\<close>

fun freshIds :: "StoreOp list \<Rightarrow> StudentState \<Rightarrow> bool" where
  "freshIds [] state = True"
| "freshIds (Add studentData uuid now1 now2 # xs) state =
     (uuid \<notin> set (map id' (students state)) \<and>
      freshIds xs (applyOp (Add studentData uuid now1 now2) state))"
| "freshIds (x # xs) state = freshIds xs (applyOp x state)"

text \<open>The actions of the three lifecycle transitions.\<close>

fun isLifecycleAction :: "StudentAction \<Rightarrow> bool" where
  "isLifecycleAction (ADD_STUDENT p) = True"
| "isLifecycleAction (UPDATE_STUDENT p) = True"
| "isLifecycleAction (DELETE_STUDENT i) = True"
| "isLifecycleAction a = False"

section \<open>The simulated server (utils/mockApi.ts)\<close>

text \<open>
  What the validation can touch is passed explicitly: the store of the application and
  the lines written to the console. A rejected promise is \<open>Inl\<close> of the error, a
  fulfilled one \<open>Inr\<close>. The two awaited steps (the microtask and the timer of 300 ms)
  complete in this order before the check.
\<close>

record World =
  store :: StudentState
  console :: "string list"

datatype error = Error string

definition console_log :: "string \<Rightarrow> World \<Rightarrow> World" where
  "console_log line w = w\<lparr>console := console w @ [line]\<rparr>"

definition existingEmails :: "string list" where
  "existingEmails = [''test@example.com'', ''admin@test.com'']"

definition validateStudentOnServer :: "StudentData \<Rightarrow> World \<Rightarrow> (error + unit) \<times> World" where
  "validateStudentOnServer studentData w =
     (let w = console_log ''1. Validation started (synchronous)'' w;
          w = console_log ''2. Microtask executed before setTimeout'' w;
          w = console_log ''3. Network delay completed (after timer)'' w
      in if toLowerCase (email studentData) \<in> set existingEmails
         then (Inl (Error ''A student with this email already exists''), w)
         else (Inr (), console_log ''4. Validation completed successfully'' w))"

section \<open>Form submission (components/StudentForm.tsx, components/Dashboard.tsx)\<close>

text \<open>
  What \<open>handleSubmit\<close> ends with: the field errors it sets, the server error it sets,
  or the call of \<open>onUpdate\<close> or \<open>onSubmit\<close>.
\<close>

datatype SubmitOutcome =
    SetValidationErrors ValidationErrors
  | SetServerError string
  | OnUpdate Student
  | OnSubmit StudentData

text \<open>The object that \<open>handleSubmit\<close> passes to the server validation.\<close>

definition serverInput :: "(string \<Rightarrow> int) \<Rightarrow> StudentFormData \<Rightarrow> StudentData" where
  "serverInput parseInt formData =
     \<lparr>name = trim (StudentFormData.name formData),
      email = trim (StudentFormData.email formData),
      courseId = parseInt (StudentFormData.courseId formData),
      profileImage = Some (StudentFormData.profileImage formData)\<rparr>"

text \<open>
  \<open>handleSubmit\<close>. The builtin \<open>parseInt\<close> and the result \<open>randomImage\<close> of
  \<open>getRandomProfileImage()\<close> are arguments; \<open>student\<close> is the record being edited, if
  any, and \<open>hasOnUpdate\<close> says whether the \<open>onUpdate\<close> callback was given.
\<close>

definition handleSubmit ::
  "(string \<Rightarrow> int) \<Rightarrow> string \<Rightarrow> StudentFormData \<Rightarrow> Student option \<Rightarrow> bool \<Rightarrow> World
     \<Rightarrow> SubmitOutcome \<times> World" where
  "handleSubmit parseInt randomImage formData student hasOnUpdate w =
     (let errors = validateStudent formData;
          isEditing = (student \<noteq> None)
      in if hasValidationErrors errors then (SetValidationErrors errors, w)
         else
           (case (if \<not> isEditing
                  then validateStudentOnServer (serverInput parseInt formData) w
                  else (Inr (), w)) of
              (Inl (Error message), w) \<Rightarrow> (SetServerError message, w)
            | (Inr u, w) \<Rightarrow>
                (let studentData =
                       \<lparr>name = trim (StudentFormData.name formData),
                        email = trim (StudentFormData.email formData),
                        courseId = parseInt (StudentFormData.courseId formData),
                        profileImage =
                          Some (if StudentFormData.profileImage formData \<noteq> []
                                then StudentFormData.profileImage formData
                                else randomImage)\<rparr>
                 in case student of
                      Some st \<Rightarrow>
                        if hasOnUpdate
                        then (OnUpdate (st\<lparr>name := name studentData,
                                email := email studentData,
                                courseId := courseId studentData,
                                profileImage := profileImage studentData\<rparr>), w)
                        else (OnSubmit studentData, w)
                    | None \<Rightarrow> (OnSubmit studentData, w))))"

text \<open>
  The dashboard passes \<open>handleAddStudent\<close> as \<open>onSubmit\<close> and \<open>handleUpdateStudent\<close> as
  \<open>onUpdate\<close>: they call \<open>addStudent\<close> and \<open>updateStudent\<close> of the store.
\<close>

definition submitForm ::
  "(string \<Rightarrow> int) \<Rightarrow> string \<Rightarrow> string \<Rightarrow> int \<Rightarrow> int \<Rightarrow> StudentFormData \<Rightarrow> Student option
     \<Rightarrow> World \<Rightarrow> World" where
  "submitForm parseInt randomImage uuid now1 now2 formData student w =
     (case handleSubmit parseInt randomImage formData student (student \<noteq> None) w of
        (OnSubmit studentData, w) \<Rightarrow>
          w\<lparr>store := addStudent studentData uuid now1 now2 (store w)\<rparr>
      | (OnUpdate st, w) \<Rightarrow> w\<lparr>store := updateStudent st now1 (store w)\<rparr>
      | (other, w) \<Rightarrow> w)"

section \<open>The debounce hook (hooks/useDebounce.ts)\<close>








section \<open>The projection as the specification words it\<close>

text \<open>
  A string contains a term case-insensitively when the lower-cased term occurs as a
  contiguous piece of the lower-cased string.
\<close>

definition containsCI :: "string \<Rightarrow> string \<Rightarrow> bool" where
  "containsCI s t = (\<exists>pre post. toLowerCase s = pre @ toLowerCase t @ post)"

definition searchPredicate :: "string \<Rightarrow> Student \<Rightarrow> bool" where
  "searchPredicate t r = (t = [] \<or> containsCI (name r) t \<or> containsCI (email r) t)"

definition coursePredicate :: "int option \<Rightarrow> Student \<Rightarrow> bool" where
  "coursePredicate c r = (c = None \<or> c = Some (courseId r))"

text \<open>The two records of the specification's example.\<close>

definition ann :: Student where
  "ann = \<lparr>name = ''Ann'', email = ''a@x.com'', courseId = 1, profileImage = None,
          id' = ''id-1'', createdAt = 0, updatedAt = 0\<rparr>"

definition bob :: Student where
  "bob = \<lparr>name = ''Bob'', email = ''b@x.com'', courseId = 2, profileImage = None,
          id' = ''id-2'', createdAt = 0, updatedAt = 0\<rparr>"

section \<open>Structural validity as the specification words it\<close>

text \<open>
  The shape \<open>local@domain.tld\<close>: three non-empty parts without white space and
  without \<open>@\<close>, separated by one \<open>@\<close> and one dot.
\<close>

definition plainChar :: "char \<Rightarrow> bool" where
  "plainChar c = (\<not> isWhiteSpace c \<and> c \<noteq> CHR ''@'')"

definition emailShape :: "string \<Rightarrow> bool" where
  "emailShape s =
     (\<exists>local domain tld.
        s = local @ ''@'' @ domain @ ''.'' @ tld \<and>
        local \<noteq> [] \<and> domain \<noteq> [] \<and> tld \<noteq> [] \<and>
        list_all plainChar local \<and> list_all plainChar domain \<and> list_all plainChar tld)"

text \<open>
  Structural validity in the words of the specification: the trimmed name has 2 to 50
  characters, the email matches the shape, the course id is present and is not the
  sentinel "0".
\<close>

definition structurallyValid :: "StudentFormData \<Rightarrow> bool" where
  "structurallyValid f =
     (2 \<le> length (trim (StudentFormData.name f)) \<and>
      length (trim (StudentFormData.name f)) \<le> 50 \<and>
      emailShape (StudentFormData.email f) \<and>
      StudentFormData.courseId f \<noteq> [] \<and> StudentFormData.courseId f \<noteq> ''0'')"

text \<open>The same with the email trimmed before it is matched against the shape.\<close>

definition structurallyValidTrimmed :: "StudentFormData \<Rightarrow> bool" where
  "structurallyValidTrimmed f =
     (2 \<le> length (trim (StudentFormData.name f)) \<and>
      length (trim (StudentFormData.name f)) \<le> 50 \<and>
      emailShape (trim (StudentFormData.email f)) \<and>
      StudentFormData.courseId f \<noteq> [] \<and> StudentFormData.courseId f \<noteq> ''0'')"

text \<open>A record whose stored name carries a leading space.\<close>

definition paddedAnn :: Student where
  "paddedAnn = ann\<lparr>name := '' Ann''\<rparr>"

text \<open>Two forms whose email is padded with spaces, and the world at the start.\<close>

definition paddedForm :: StudentFormData where
  "paddedForm = \<lparr>StudentFormData.name = ''Ann'', email = '' test@example.com '',
                 courseId = ''1'', profileImage = ''pic''\<rparr>"

definition emptyWorld :: World where
  "emptyWorld = \<lparr>store = initialState, console = []\<rparr>"

definition paddedForm2 :: StudentFormData where
  "paddedForm2 = paddedForm\<lparr>StudentFormData.email := '' a@b.c ''\<rparr>"

text \<open>The same form with the email "a@b.c", without padding.\<close>

definition plainForm :: StudentFormData where
  "plainForm = paddedForm\<lparr>StudentFormData.email := ''a@b.c''\<rparr>"

text \<open>A draft, and a sequence of operations on the store.\<close>

definition annData :: StudentData where
  "annData = \<lparr>name = ''Ann'', email = ''a@x.com'', courseId = 1, profileImage = None\<rparr>"

definition exampleOps :: "StoreOp list" where
  "exampleOps =
     [Add annData ''id-1'' 10 10, Add annData ''id-2'' 20 21,
      Update (newStudent annData ''id-1'' 10 10\<lparr>name := ''Anna''\<rparr>) 30,
      Delete ''id-2'', Add annData ''id-2'' 40 40]"




text \<open>The store after the two records were added, in this order.\<close>

definition exampleState :: StudentState where
  "exampleState =
     studentReducer (studentReducer initialState (ADD_STUDENT ann)) (ADD_STUDENT bob)"

section \<open>Facts about the string functions\<close>

lemma includes_sublist: "includes_str s t = sublist t s"
  by (induction s) (simp_all add: sublist_Cons_right)

lemma includes_decompose: "includes_str s t = (\<exists>pre post. s = pre @ t @ post)"
  by (simp add: includes_sublist sublist_def)

lemma includes_Nil [simp]: "includes_str s []"
  by (simp add: includes_sublist)

lemma toLowerCase_Nil [simp]: "toLowerCase [] = []"
  by (simp add: toLowerCase_def)

lemma toLowerCase_append: "toLowerCase (a @ b) = toLowerCase a @ toLowerCase b"
  by (simp add: toLowerCase_def)

lemma trim_sublist: "sublist (trim t) t"
proof -
  have "sublist (rev (dropWhile isWhiteSpace (rev (dropWhile isWhiteSpace t))))
          (rev (rev (dropWhile isWhiteSpace t)))"
    unfolding sublist_rev by simp
  then have "sublist (trim t) (dropWhile isWhiteSpace t)"
    by (simp add: trim_def)
  then show ?thesis
    using sublist_dropWhile sublist_order.order_trans by blast
qed

lemma dropWhile_id: "xs = [] \<or> \<not> P (hd xs) \<Longrightarrow> dropWhile P xs = xs"
  by (cases xs) auto

lemma trim_ends:
  assumes "trim s \<noteq> []"
  shows "\<not> isWhiteSpace (hd (trim s))" and "\<not> isWhiteSpace (last (trim s))"
proof -
  define a where "a = dropWhile isWhiteSpace s"
  define b where "b = dropWhile isWhiteSpace (rev a)"
  have t: "trim s = rev b"
    by (simp add: trim_def a_def b_def)
  with assms have b: "b \<noteq> []"
    by simp
  then have a: "a \<noteq> []"
    by (auto simp: b_def)
  have "\<not> isWhiteSpace (hd b)"
    using b unfolding b_def by (rule hd_dropWhile)
  with b show "\<not> isWhiteSpace (last (trim s))"
    by (simp add: t last_rev)
  have "rev a = takeWhile isWhiteSpace (rev a) @ b"
    by (simp add: b_def)
  then have "last (rev a) = last b"
    using b by (metis last_appendR)
  then have "last b = hd a"
    using a by (simp add: last_rev)
  moreover have "\<not> isWhiteSpace (hd a)"
    using a unfolding a_def by (rule hd_dropWhile)
  ultimately show "\<not> isWhiteSpace (hd (trim s))"
    using b by (simp add: t hd_rev)
qed

lemma trim_fixed:
  assumes "t = [] \<or> (\<not> isWhiteSpace (hd t) \<and> \<not> isWhiteSpace (last t))"
  shows "trim t = t"
proof (cases "t = []")
  case True
  then show ?thesis by (simp add: trim_def)
next
  case False
  with assms have h: "\<not> isWhiteSpace (hd t)" and l: "\<not> isWhiteSpace (last t)"
    by simp_all
  from False h have "dropWhile isWhiteSpace t = t"
    by (simp add: dropWhile_id)
  moreover from False l have "dropWhile isWhiteSpace (rev t) = rev t"
    by (simp add: dropWhile_id hd_rev)
  ultimately show ?thesis
    by (simp add: trim_def)
qed

lemma trim_idem: "trim (trim s) = trim s"
  using trim_ends [of s] by (intro trim_fixed) blast

lemma isValidEmail_trim: "isValidEmail e = isValidEmail (trim e)"
  by (simp add: isValidEmail_def trim_idem)

section \<open>Update and delete of an unknown id\<close>

lemma map_replace_absent:
  "i \<notin> set (map id' xs) \<Longrightarrow> map (\<lambda>s. if id' s = i then p else s) xs = xs"
  by (induction xs) auto

lemma filter_delete_absent:
  "i \<notin> set (map id' xs) \<Longrightarrow> filter (\<lambda>s. id' s \<noteq> i) xs = xs"
  by (induction xs) auto

text \<open>
  C4. When no record of the state carries the id, the Update transition with a record of
  that id and the Delete transition with that id return the state they were given: the
  reducer is a total function (nothing is thrown), the record set is the same list, so
  nothing was added and nothing removed. The same holds through the helpers
  \<open>updateStudent\<close> and \<open>deleteStudent\<close> of the provider.
\<close>

theorem unknown_id_noop:
  assumes "i \<notin> set (map id' (students state))" and "id' payload = i"
  shows "studentReducer state (UPDATE_STUDENT payload) = state \<and>
         studentReducer state (DELETE_STUDENT i) = state \<and>
         students (updateStudent payload now state) = students state \<and>
         students (deleteStudent i state) = students state"
  using assms
  by (simp add: updateStudent_def deleteStudent_def map_replace_absent
        filter_delete_absent)

theorem unknown_id_noop_witness:
  "''id-9'' \<notin> set (map id' (students (initialState\<lparr>students := [ann, bob]\<rparr>))) \<and>
   id' (ann\<lparr>id' := ''id-9''\<rparr>) = ''id-9'' \<and>
   studentReducer (initialState\<lparr>students := [ann, bob]\<rparr>)
     (UPDATE_STUDENT (ann\<lparr>id' := ''id-9''\<rparr>)) = initialState\<lparr>students := [ann, bob]\<rparr> \<and>
   studentReducer (initialState\<lparr>students := [ann, bob]\<rparr>) (DELETE_STUDENT ''id-9'')
     = initialState\<lparr>students := [ann, bob]\<rparr>"
proof -
  have h: "''id-9'' \<notin> set (map id' (students (initialState\<lparr>students := [ann, bob]\<rparr>)))"
    by (simp add: initialState_def ann_def bob_def)
  have e: "id' (ann\<lparr>id' := ''id-9''\<rparr>) = ''id-9''"
    by simp
  show ?thesis
    using h e unknown_id_noop [OF h e] by simp
qed

section \<open>The projection\<close>

lemma containsCI_includes:
  "containsCI s t = includes_str (toLowerCase s) (toLowerCase t)"
  by (simp add: containsCI_def includes_decompose)

lemma searchPredicate_matchesSearch:
  "searchPredicate t r =
     (includes_str (toLowerCase (name r)) (toLowerCase t) \<or>
      includes_str (toLowerCase (email r)) (toLowerCase t))"
  by (cases "t = []") (simp_all add: searchPredicate_def containsCI_includes)

lemma getFilteredStudents_spec:
  "getFilteredStudents state =
     filter (\<lambda>r. searchPredicate (searchTerm state) r \<and>
                 coursePredicate (selectedCourseFilter state) r) (students state)"
  unfolding getFilteredStudents_def Let_def searchPredicate_matchesSearch
    coursePredicate_def
  by (rule filter_cong) auto

lemma example_an:
  "getFilteredStudents (setCourseFilter None (setSearchTerm ''an'' exampleState)) = [ann]"
  by code_simp

lemma example_course2:
  "getFilteredStudents (setCourseFilter (Some 2) (setSearchTerm [] exampleState)) = [bob]"
  by code_simp

lemma example_z:
  "getFilteredStudents (setSearchTerm ''z'' exampleState) = []"
  by code_simp

text \<open>
  C1. The projection is the record list filtered by the conjunction of the search
  predicate (the term is empty, or the name or the email contains it case-insensitively)
  and the course predicate (no course selected, or the record's course is the selected
  one). Being a filter of the record list it keeps the insertion order, and a record is
  in it exactly when it is in the store and satisfies both predicates. On the two records
  Ann (course 1) and Bob (course 2): term "an" without course filter gives Ann only, the
  empty term with course 2 gives Bob only, term "z" gives nothing.
\<close>

theorem projection_exact:
  "getFilteredStudents state =
     filter (\<lambda>r. searchPredicate (searchTerm state) r \<and>
                 coursePredicate (selectedCourseFilter state) r) (students state) \<and>
   subseq (getFilteredStudents state) (students state) \<and>
   (r \<in> set (getFilteredStudents state)) =
     (r \<in> set (students state) \<and> searchPredicate (searchTerm state) r \<and>
      coursePredicate (selectedCourseFilter state) r) \<and>
   map name (students exampleState) = [''Ann'', ''Bob''] \<and>
   getFilteredStudents (setCourseFilter None (setSearchTerm ''an'' exampleState)) = [ann] \<and>
   getFilteredStudents (setCourseFilter (Some 2) (setSearchTerm [] exampleState)) = [bob] \<and>
   getFilteredStudents (setSearchTerm ''z'' exampleState) = []"
proof -
  have "subseq (getFilteredStudents state) (students state)"
    by (simp add: getFilteredStudents_def)
  moreover have "map name (students exampleState) = [''Ann'', ''Bob'']"
    by (simp add: exampleState_def initialState_def ann_def bob_def)
  ultimately show ?thesis
    using getFilteredStudents_spec [of state] example_an example_course2 example_z
    by simp
qed

section \<open>Structural validation\<close>

lemma matchPieces_Once:
  "matchPieces (Once a # ps) s = (\<exists>c v. s = c # v \<and> atomMatches a c \<and> matchPieces ps v)"
  by (cases s) auto

lemma matchPieces_OneOrMore:
  "matchPieces (OneOrMore a # ps) s =
     (\<exists>u v. s = u @ v \<and> u \<noteq> [] \<and> list_all (atomMatches a) u \<and> matchPieces ps v)"
proof (induction s)
  case Nil
  show ?case by simp
next
  case (Cons c s)
  show ?case
  proof
    assume "matchPieces (OneOrMore a # ps) (c # s)"
    then have c: "atomMatches a c"
      and d: "matchPieces (OneOrMore a # ps) s \<or> matchPieces ps s"
      by simp_all
    from d show "\<exists>u v. c # s = u @ v \<and> u \<noteq> [] \<and> list_all (atomMatches a) u \<and> matchPieces ps v"
    proof
      assume "matchPieces (OneOrMore a # ps) s"
      with Cons.IH obtain u v where "s = u @ v" "list_all (atomMatches a) u" "matchPieces ps v"
        by blast
      with c have "c # s = (c # u) @ v \<and> c # u \<noteq> [] \<and> list_all (atomMatches a) (c # u) \<and> matchPieces ps v"
        by simp
      then show ?thesis by blast
    next
      assume "matchPieces ps s"
      with c have "c # s = [c] @ s \<and> [c] \<noteq> [] \<and> list_all (atomMatches a) [c] \<and> matchPieces ps s"
        by simp
      then show ?thesis by blast
    qed
  next
    assume "\<exists>u v. c # s = u @ v \<and> u \<noteq> [] \<and> list_all (atomMatches a) u \<and> matchPieces ps v"
    then obtain u v where uv: "c # s = u @ v" "u \<noteq> []" "list_all (atomMatches a) u" "matchPieces ps v"
      by blast
    then obtain u' where u: "u = c # u'" by (cases u) auto
    with uv have s: "s = u' @ v" and c: "atomMatches a c" and r: "list_all (atomMatches a) u'"
      by simp_all
    show "matchPieces (OneOrMore a # ps) (c # s)"
    proof (cases "u' = []")
      case True
      with s uv c show ?thesis by simp
    next
      case False
      with s r uv(4) Cons.IH have "matchPieces (OneOrMore a # ps) s" by blast
      with c show ?thesis by simp
    qed
  qed
qed

lemma atomMatches_plain:
  "atomMatches (NoneOf [WhiteSpaceEscape, ClassChar CHR ''@'']) = plainChar"
  by (rule ext) (simp add: plainChar_def)

lemma emailRegex_shape: "regex_test emailRegex s = emailShape s"
  unfolding regex_test_def emailRegex_def emailShape_def
  by (simp add: matchPieces_OneOrMore matchPieces_Once atomMatches_plain) blast

lemma isValidEmail_shape: "isValidEmail e = emailShape (trim e)"
  by (simp add: isValidEmail_def emailRegex_shape)

lemma emailShape_nonempty: "emailShape s \<Longrightarrow> s \<noteq> []"
  by (auto simp: emailShape_def)

lemma validateStudent_name:
  "(validateStudent f ''name'' = None) =
     (2 \<le> length (trim (StudentFormData.name f)) \<and>
      length (trim (StudentFormData.name f)) \<le> 50)"
  by (auto simp: validateStudent_def Let_def)

lemma validateStudent_email:
  "(validateStudent f ''email'' = None) = isValidEmail (StudentFormData.email f)"
  using emailShape_nonempty [of "trim (StudentFormData.email f)"]
  by (auto simp: validateStudent_def Let_def isValidEmail_shape)

lemma validateStudent_courseId:
  "(validateStudent f ''courseId'' = None) =
     (StudentFormData.courseId f \<noteq> [] \<and> StudentFormData.courseId f \<noteq> ''0'')"
  by (auto simp: validateStudent_def Let_def)

lemma validateStudent_keys:
  "dom (validateStudent f) \<subseteq> {''name'', ''email'', ''courseId''}"
  by (auto simp: validateStudent_def Let_def split: if_splits)

lemma validateStudent_empty:
  "(validateStudent f = Map.empty) =
     (validateStudent f ''name'' = None \<and> validateStudent f ''email'' = None \<and>
      validateStudent f ''courseId'' = None)"
proof
  assume "validateStudent f = Map.empty"
  then show "validateStudent f ''name'' = None \<and> validateStudent f ''email'' = None \<and>
      validateStudent f ''courseId'' = None"
    by simp
next
  assume h: "validateStudent f ''name'' = None \<and> validateStudent f ''email'' = None \<and>
      validateStudent f ''courseId'' = None"
  show "validateStudent f = Map.empty"
  proof (rule ext)
    fix k
    show "validateStudent f k = None"
    proof (cases "k \<in> {''name'', ''email'', ''courseId''}")
      case True
      with h show ?thesis by auto
    next
      case False
      with validateStudent_keys [of f] show ?thesis by blast
    qed
  qed
qed

lemma hasValidationErrors_iff:
  "hasValidationErrors (validateStudent f) = (validateStudent f \<noteq> Map.empty)"
proof -
  have "finite (dom (validateStudent f))"
    using validateStudent_keys [of f] by (rule finite_subset) simp
  then show ?thesis
    by (simp add: hasValidationErrors_def card_gt_0_iff)
qed

lemma name_required:
  "validateStudent (f\<lparr>StudentFormData.name := []\<rparr>) ''name'' = Some ''Name is required''"
  by (simp add: validateStudent_def Let_def trim_def)

lemma paddedForm2_valid: "\<not> hasValidationErrors (validateStudent paddedForm2)"
proof -
  have "isValidEmail (StudentFormData.email paddedForm2)"
    unfolding paddedForm2_def paddedForm_def by code_simp
  moreover have "length (trim (StudentFormData.name paddedForm2)) = 3"
    unfolding paddedForm2_def paddedForm_def by code_simp
  ultimately show ?thesis
    by (simp add: hasValidationErrors_iff validateStudent_empty validateStudent_name
        validateStudent_email validateStudent_courseId)
      (simp add: paddedForm2_def paddedForm_def)
qed

lemma emailShape_trim:
  assumes "emailShape s"
  shows "trim s = s"
proof -
  from assms obtain l d t where s: "s = l @ ''@'' @ d @ ''.'' @ t"
    and l: "l \<noteq> []" "list_all plainChar l" and t: "t \<noteq> []" "list_all plainChar t"
    unfolding emailShape_def by blast
  from l have "plainChar (hd l)"
    by (cases l) simp_all
  with s l(1) have h: "\<not> isWhiteSpace (hd s)"
    by (simp add: plainChar_def)
  from t have "plainChar (last t)"
    by (simp add: list_all_iff)
  with s t(1) have "\<not> isWhiteSpace (last s)"
    by (simp add: plainChar_def)
  with h show ?thesis
    by (intro trim_fixed) simp
qed

lemma structurallyValid_trimmed:
  "structurallyValid f \<Longrightarrow> structurallyValidTrimmed f"
  by (simp add: structurallyValid_def structurallyValidTrimmed_def emailShape_trim)

lemma validateStudent_trimmed:
  "(validateStudent f = Map.empty) = structurallyValidTrimmed f"
  unfolding validateStudent_empty validateStudent_name validateStudent_email
    validateStudent_courseId structurallyValidTrimmed_def isValidEmail_shape
  by blast

lemma hasValidationErrors_empty: "\<not> hasValidationErrors Map.empty"
  by (simp add: hasValidationErrors_def)

lemma padded_no_shape: "\<not> regex_test emailRegex '' a@b.c ''"
  by code_simp

lemma plain_shape: "regex_test emailRegex ''a@b.c''"
  by code_simp

text \<open>
  C2, as stated, fails: the form with the name "Ann", the course "1" and the email
  " a@b.c " (a space on each side) is accepted with an empty error map, while this
  email does not match the pattern: \<open>isValidEmail\<close> trims the email before the test.
\<close>

theorem padded_email_counterexample:
  "validateStudent paddedForm2 = Map.empty \<and>
   \<not> hasValidationErrors (validateStudent paddedForm2) \<and>
   StudentFormData.email paddedForm2 = '' a@b.c '' \<and>
   \<not> regex_test emailRegex (StudentFormData.email paddedForm2) \<and>
   \<not> emailShape (StudentFormData.email paddedForm2) \<and>
   \<not> structurallyValid paddedForm2"
proof -
  have e: "StudentFormData.email paddedForm2 = '' a@b.c ''"
    by (simp add: paddedForm2_def)
  have "\<not> emailShape '' a@b.c ''"
    using padded_no_shape by (simp add: emailRegex_shape)
  moreover have "validateStudent paddedForm2 = Map.empty"
    using paddedForm2_valid by (simp add: hasValidationErrors_iff)
  ultimately show ?thesis
    using e padded_no_shape
    by (simp add: hasValidationErrors_empty structurallyValid_def)
qed

text \<open>
  C2, amended. \<open>validateStudent\<close> returns the empty map exactly when the trimmed name
  has between 2 and 50 characters, the email with the surrounding white space removed
  has the shape \<open>local@domain.tld\<close>, and the course id is neither empty nor the sentinel
  "0". Each of the three keys carries a message exactly when its field fails, and an
  empty name yields "Name is required". A form whose email matches the shape as it
  stands, and whose name and course are in order, is accepted.
\<close>

theorem validateStudent_structural:
  "(validateStudent f = Map.empty) = structurallyValidTrimmed f \<and>
   hasValidationErrors (validateStudent f) = (\<not> structurallyValidTrimmed f) \<and>
   (validateStudent f ''name'' = None) =
     (2 \<le> length (trim (StudentFormData.name f)) \<and>
      length (trim (StudentFormData.name f)) \<le> 50) \<and>
   (validateStudent f ''email'' = None) = emailShape (trim (StudentFormData.email f)) \<and>
   (validateStudent f ''courseId'' = None) =
     (StudentFormData.courseId f \<noteq> [] \<and> StudentFormData.courseId f \<noteq> ''0'') \<and>
   isValidEmail (StudentFormData.email f) = emailShape (trim (StudentFormData.email f)) \<and>
   validateStudent (f\<lparr>StudentFormData.name := []\<rparr>) ''name'' = Some ''Name is required'' \<and>
   (structurallyValid f \<longrightarrow> validateStudent f = Map.empty)"
  using structurallyValid_trimmed [of f]
  by (simp add: validateStudent_trimmed hasValidationErrors_iff validateStudent_name
      validateStudent_email validateStudent_courseId isValidEmail_shape name_required)

theorem validateStudent_structural_witness:
  "structurallyValid plainForm \<and> validateStudent plainForm = Map.empty \<and>
   \<not> hasValidationErrors (validateStudent plainForm)"
proof -
  have "length (trim (StudentFormData.name plainForm)) = 3"
    unfolding plainForm_def paddedForm_def by code_simp
  moreover have "emailShape ''a@b.c''"
    using plain_shape by (simp add: emailRegex_shape)
  ultimately have v: "structurallyValid plainForm"
    by (simp add: structurallyValid_def) (simp add: plainForm_def paddedForm_def)
  with validateStudent_structural [of plainForm] show ?thesis
    by (simp add: hasValidationErrors_empty)
qed

section \<open>Remote validation\<close>

lemma store_console_log [simp]: "store (console_log l w) = store w"
  by (simp add: console_log_def)

lemma validateStudentOnServer_result:
  "fst (validateStudentOnServer d w) =
     (if toLowerCase (email d) \<in> set existingEmails
      then Inl (Error ''A student with this email already exists'') else Inr ())"
  by (simp add: validateStudentOnServer_def Let_def)

lemma validateStudentOnServer_store:
  "store (snd (validateStudentOnServer d w)) = store w"
  by (simp add: validateStudentOnServer_def Let_def)

lemma lower_test: "toLowerCase ''test@example.com'' = ''test@example.com''"
  by code_simp

text \<open>
  C3. \<open>validateStudentOnServer\<close> rejects, with the one error "A student with this email
  already exists", exactly when the lower-cased email it is given is in the fixed list of
  existing emails, and fulfils otherwise; it rejects \<open>test@example.com\<close>; the store is
  the same after it as before.
\<close>

theorem remote_validation:
  "(fst (validateStudentOnServer d w) = Inl (Error ''A student with this email already exists''))
     = (toLowerCase (email d) \<in> set existingEmails) \<and>
   isl (fst (validateStudentOnServer d w)) = (toLowerCase (email d) \<in> set existingEmails) \<and>
   (fst (validateStudentOnServer d w) = Inr ()) = (toLowerCase (email d) \<notin> set existingEmails) \<and>
   fst (validateStudentOnServer (d\<lparr>email := ''test@example.com''\<rparr>) w)
     = Inl (Error ''A student with this email already exists'') \<and>
   store (snd (validateStudentOnServer d w)) = store w"
  by (simp add: validateStudentOnServer_result validateStudentOnServer_store lower_test
      existingEmails_def)

section \<open>The search term is matched as typed\<close>

lemma toLowerCase_sublist: "sublist a b \<Longrightarrow> sublist (toLowerCase a) (toLowerCase b)"
  unfolding sublist_def by (metis toLowerCase_append)

lemma includes_trim:
  assumes "includes_str s (toLowerCase t)"
  shows "includes_str s (toLowerCase (trim t))"
proof -
  have "sublist (toLowerCase (trim t)) (toLowerCase t)"
    by (rule toLowerCase_sublist) (rule trim_sublist)
  with assms show ?thesis
    unfolding includes_sublist by (rule sublist_order.order_trans [rotated])
qed

lemma filter_subseq_mono:
  "(\<And>x. P x \<Longrightarrow> Q x) \<Longrightarrow> subseq (filter P xs) (filter Q xs)"
proof -
  assume "\<And>x. P x \<Longrightarrow> Q x"
  then have "filter P xs = filter P (filter Q xs)"
    by (auto intro: filter_cong)
  then show ?thesis
    by (metis subseq_filter_left)
qed

lemma projection_mem:
  "(r \<in> set (getFilteredStudents (setSearchTerm t st))) =
     (r \<in> set (students st) \<and>
      (includes_str (toLowerCase (name r)) (toLowerCase t) \<or>
       includes_str (toLowerCase (email r)) (toLowerCase t)) \<and>
      coursePredicate (selectedCourseFilter st) r)"
  by (auto simp: getFilteredStudents_def setSearchTerm_def coursePredicate_def)

lemma projection_trim_subseq:
  "subseq (getFilteredStudents (setSearchTerm t st))
     (getFilteredStudents (setSearchTerm (trim t) st))"
  unfolding getFilteredStudents_def setSearchTerm_def Let_def
  by (simp, rule filter_subseq_mono) (auto intro: includes_trim)

lemma includes_self: "includes_str s s"
  by (simp add: includes_sublist)

lemma example_an_padded:
  "getFilteredStudents (setSearchTerm '' an'' exampleState) = []"
  "getFilteredStudents (setSearchTerm (trim '' an'') exampleState) = [ann]"
  by code_simp+

text \<open>
  C8, as stated, fails: on the two example records the term " an" (with a leading
  space) selects nothing, while the trimmed term "an" selects Ann.
\<close>

theorem search_term_trim_counterexample:
  "getFilteredStudents (setSearchTerm '' an'' exampleState) \<noteq>
     getFilteredStudents (setSearchTerm (trim '' an'') exampleState) \<and>
   getFilteredStudents (setSearchTerm '' an'' exampleState) = [] \<and>
   getFilteredStudents (setSearchTerm (trim '' an'') exampleState) = [ann]"
  by (simp add: example_an_padded)

lemma padded_examples:
  "getFilteredStudents (setSearchTerm '' a'' (initialState\<lparr>students := [paddedAnn]\<rparr>)) = [paddedAnn]"
  "getFilteredStudents (setSearchTerm '' a'' (initialState\<lparr>students := [ann]\<rparr>)) = []"
  by code_simp+

text \<open>
  C8, amended. Neither the search term nor the stored fields are trimmed: a record is
  in the projection for a term exactly when it is in the store, passes the course filter,
  and its lower-cased name or email contains the lower-cased term as it was typed.
  Whatever a term selects, the trimmed term selects too (the projection for the term is
  a subsequence of the projection for the trimmed term). Stored values are matched
  untrimmed: a record that passes the course filter is found by its exact stored name
  and by its exact stored email; the term " a" finds the stored name " Ann" and does not
  find the stored name "Ann".
\<close>

theorem search_term_as_typed:
  "(r \<in> set (getFilteredStudents (setSearchTerm t st))) =
     (r \<in> set (students st) \<and>
      (sublist (toLowerCase t) (toLowerCase (name r)) \<or>
       sublist (toLowerCase t) (toLowerCase (email r))) \<and>
      coursePredicate (selectedCourseFilter st) r) \<and>
   subseq (getFilteredStudents (setSearchTerm t st))
     (getFilteredStudents (setSearchTerm (trim t) st)) \<and>
   (r \<in> set (students st) \<and> coursePredicate (selectedCourseFilter st) r \<longrightarrow>
      r \<in> set (getFilteredStudents (setSearchTerm (name r) st)) \<and>
      r \<in> set (getFilteredStudents (setSearchTerm (email r) st))) \<and>
   getFilteredStudents (setSearchTerm '' a'' (initialState\<lparr>students := [paddedAnn]\<rparr>))
     = [paddedAnn] \<and>
   getFilteredStudents (setSearchTerm '' a'' (initialState\<lparr>students := [ann]\<rparr>)) = []"
  using projection_trim_subseq [of t st] padded_examples
  by (simp add: projection_mem includes_self) (simp add: includes_sublist)

theorem search_term_as_typed_witness:
  "ann \<in> set (students exampleState) \<and>
   coursePredicate (selectedCourseFilter exampleState) ann \<and>
   ann \<in> set (getFilteredStudents (setSearchTerm (name ann) exampleState)) \<and>
   subseq (getFilteredStudents (setSearchTerm '' an'' exampleState))
     (getFilteredStudents (setSearchTerm (trim '' an'') exampleState))"
proof -
  have h: "ann \<in> set (students exampleState) \<and>
           coursePredicate (selectedCourseFilter exampleState) ann"
    by (simp add: exampleState_def initialState_def coursePredicate_def)
  with search_term_as_typed [of ann "'' an''" exampleState] show ?thesis
    by blast
qed

section \<open>Trimming of the email\<close>

lemma handleSubmit_email:
  "fst (handleSubmit parseInt img f student b w) = OnSubmit d \<Longrightarrow>
     email d = trim (StudentFormData.email f)"
  by (auto simp: handleSubmit_def Let_def split: if_splits prod.splits sum.splits
      error.splits option.splits)

lemma handleSubmit_email_update:
  "fst (handleSubmit parseInt img f student b w) = OnUpdate st \<Longrightarrow>
     email st = trim (StudentFormData.email f)"
  by (auto simp: handleSubmit_def Let_def split: if_splits prod.splits sum.splits
      error.splits option.splits)

lemma serverInput_email [simp]:
  "email (serverInput parseInt f) = trim (StudentFormData.email f)"
  by (simp add: serverInput_def)

lemma validateStudentOnServer_pair:
  "validateStudentOnServer d w =
     (if toLowerCase (email d) \<in> set existingEmails
      then Inl (Error ''A student with this email already exists'') else Inr (),
      snd (validateStudentOnServer d w))"
  by (simp add: prod_eq_iff validateStudentOnServer_result)


lemma handleSubmit_new:
  assumes "\<not> hasValidationErrors (validateStudent f)"
  shows "handleSubmit parseInt img f None b w =
     (if toLowerCase (trim (StudentFormData.email f)) \<in> set existingEmails
      then SetServerError ''A student with this email already exists''
      else OnSubmit \<lparr>name = trim (StudentFormData.name f),
             email = trim (StudentFormData.email f),
             courseId = parseInt (StudentFormData.courseId f),
             profileImage = Some (if StudentFormData.profileImage f \<noteq> []
                                  then StudentFormData.profileImage f else img)\<rparr>,
      snd (validateStudentOnServer (serverInput parseInt f) w))"
  using assms
  by (subst handleSubmit_def, subst validateStudentOnServer_pair) (simp add: Let_def)

lemma submitForm_new:
  assumes "\<not> hasValidationErrors (validateStudent f)"
    and "toLowerCase (trim (StudentFormData.email f)) \<notin> set existingEmails"
  shows "map email (students (store (submitForm parseInt img uuid n1 n2 f None w))) =
           map email (students (store w)) @ [trim (StudentFormData.email f)]"
  using assms(2)
  by (simp add: submitForm_def handleSubmit_new [OF assms(1)] addStudent_def
      newStudent_def validateStudentOnServer_store)

lemma paddedForm_valid: "\<not> hasValidationErrors (validateStudent paddedForm)"
proof -
  have "isValidEmail (StudentFormData.email paddedForm)"
    unfolding paddedForm_def by code_simp
  moreover have "length (trim (StudentFormData.name paddedForm)) = 3"
    unfolding paddedForm_def by code_simp
  ultimately show ?thesis
    by (simp add: hasValidationErrors_iff validateStudent_empty validateStudent_name
        validateStudent_email validateStudent_courseId) (simp add: paddedForm_def)
qed

lemma paddedForm_trim: "toLowerCase (trim (StudentFormData.email paddedForm)) = ''test@example.com''"
  unfolding paddedForm_def by code_simp

lemma paddedForm_lower: "toLowerCase (StudentFormData.email paddedForm) = '' test@example.com ''"
  unfolding paddedForm_def by code_simp



lemma paddedForm2_trim: "trim (StudentFormData.email paddedForm2) = ''a@b.c''"
  unfolding paddedForm2_def paddedForm_def by code_simp

lemma paddedForm2_lower: "toLowerCase ''a@b.c'' = ''a@b.c''"
  by code_simp

lemma padded_email_accepted:
  "validateStudent (f\<lparr>StudentFormData.email := '' a@b.c ''\<rparr>) ''email'' = None"
proof -
  have "isValidEmail '' a@b.c ''"
    by code_simp
  then show ?thesis
    by (simp add: validateStudent_email)
qed

text \<open>
  C10, as stated, fails in its last part: the form with the email " test@example.com "
  passes the structural validation, its untrimmed lower-cased email is not in the list
  of existing emails, and yet the submission ends with the server error, because
  \<open>handleSubmit\<close> passes the trimmed email; and the form with the email " a@b.c " stores
  a record with the email "a@b.c".
\<close>

theorem untrimmed_email_counterexample:
  "\<not> hasValidationErrors (validateStudent paddedForm) \<and>
   toLowerCase (StudentFormData.email paddedForm) \<notin> set existingEmails \<and>
   fst (handleSubmit (\<lambda>s. 1) ''img'' paddedForm None False emptyWorld)
     = SetServerError ''A student with this email already exists'' \<and>
   email (serverInput (\<lambda>s. 1) paddedForm) \<noteq> StudentFormData.email paddedForm \<and>
   \<not> hasValidationErrors (validateStudent paddedForm2) \<and>
   StudentFormData.email paddedForm2 = '' a@b.c '' \<and>
   map email (students (store
     (submitForm (\<lambda>s. 1) ''img'' ''id-3'' 5 5 paddedForm2 None emptyWorld))) = [''a@b.c'']"
proof -
  have a: "email (serverInput (\<lambda>s. 1) paddedForm) \<noteq> StudentFormData.email paddedForm"
    unfolding paddedForm_def serverInput_def by code_simp
  have b: "StudentFormData.email paddedForm2 = '' a@b.c ''"
    by (simp add: paddedForm2_def)
  have c: "toLowerCase (StudentFormData.email paddedForm) \<notin> set existingEmails"
    by (simp add: paddedForm_lower existingEmails_def)
  have d: "fst (handleSubmit (\<lambda>s. 1) ''img'' paddedForm None False emptyWorld)
             = SetServerError ''A student with this email already exists''"
    by (simp add: handleSubmit_new [OF paddedForm_valid] paddedForm_trim existingEmails_def)
  have "toLowerCase (trim (StudentFormData.email paddedForm2)) \<notin> set existingEmails"
    by (simp add: paddedForm2_trim paddedForm2_lower existingEmails_def)
  then have e: "map email (students (store
     (submitForm (\<lambda>s. 1) ''img'' ''id-3'' 5 5 paddedForm2 None emptyWorld))) = [''a@b.c'']"
    by (simp add: submitForm_new [OF paddedForm2_valid] paddedForm2_trim emptyWorld_def
        initialState_def)
  from a b c d e paddedForm_valid paddedForm2_valid show ?thesis
    by blast
qed

text \<open>
  C10, amended. \<open>isValidEmail\<close> trims its input, so it gives the same verdict on a
  string and on the trimmed string, and the structural validation accepts the padded
  email " a@b.c ". The submission handler then trims the email: the trimmed string is
  what is passed to the server validation and lower-cased for the comparison with the
  list of existing emails, and the trimmed string is what the record given to
  \<open>onSubmit\<close> or \<open>onUpdate\<close>, and so the stored record, carries.
\<close>

theorem email_trimmed_on_submit:
  "isValidEmail e = isValidEmail (trim e) \<and>
   validateStudent (f\<lparr>StudentFormData.email := '' a@b.c ''\<rparr>) ''email'' = None \<and>
   email (serverInput parseInt f) = trim (StudentFormData.email f) \<and>
   (\<not> hasValidationErrors (validateStudent f) \<longrightarrow>
      (fst (handleSubmit parseInt img f None b w)
         = SetServerError ''A student with this email already exists'')
        = (toLowerCase (trim (StudentFormData.email f)) \<in> set existingEmails)) \<and>
   (fst (handleSubmit parseInt img f student b w) = OnSubmit d \<longrightarrow>
      email d = trim (StudentFormData.email f)) \<and>
   (fst (handleSubmit parseInt img f student b w) = OnUpdate st \<longrightarrow>
      email st = trim (StudentFormData.email f)) \<and>
   (\<not> hasValidationErrors (validateStudent f) \<and>
    toLowerCase (trim (StudentFormData.email f)) \<notin> set existingEmails \<longrightarrow>
      map email (students (store (submitForm parseInt img uuid n1 n2 f None w)))
        = map email (students (store w)) @ [trim (StudentFormData.email f)])"
  using isValidEmail_trim [of e] padded_email_accepted [of f]
    handleSubmit_email [of parseInt img f student b w d]
    handleSubmit_email_update [of parseInt img f student b w st]
    submitForm_new [of f parseInt img uuid n1 n2 w]
  by (simp add: handleSubmit_new)

theorem email_trimmed_on_submit_witness:
  "\<not> hasValidationErrors (validateStudent paddedForm2) \<and>
   toLowerCase (trim (StudentFormData.email paddedForm2)) \<notin> set existingEmails \<and>
   fst (handleSubmit (\<lambda>s. 1) ''img'' paddedForm2 None False emptyWorld)
     \<noteq> SetServerError ''A student with this email already exists'' \<and>
   map email (students (store
     (submitForm (\<lambda>s. 1) ''img'' ''id-3'' 5 5 paddedForm2 None emptyWorld)))
     = map email (students (store emptyWorld)) @ [trim (StudentFormData.email paddedForm2)]"
proof -
  have h: "\<not> hasValidationErrors (validateStudent paddedForm2)"
    by (rule paddedForm2_valid)
  have n: "toLowerCase (trim (StudentFormData.email paddedForm2)) \<notin> set existingEmails"
    by (simp add: paddedForm2_trim paddedForm2_lower existingEmails_def)
  from h n
    email_trimmed_on_submit [of "'' ''" paddedForm2 "\<lambda>s. 1" "''img''" False emptyWorld
      None "serverInput (\<lambda>s. 1) paddedForm2" ann "''id-3''" 5 5]
  show ?thesis
    by blast
qed

section \<open>Identity of the records\<close>

lemma update_ids:
  "map id' (students (studentReducer st (UPDATE_STUDENT p))) = map id' (students st)"
  by (simp add: comp_def)

lemma applyOp_distinct:
  assumes "distinct (map id' (students st))" and "freshIds (x # xs) st"
  shows "distinct (map id' (students (applyOp x st)))"
proof (cases x)
  case (Add d u n1 n2)
  with assms show ?thesis
    by (simp add: addStudent_def newStudent_def)
next
  case (Update s n)
  with assms(1) show ?thesis
    by (simp only: applyOp.simps updateStudent_def update_ids)
next
  case (Delete i)
  with assms(1) show ?thesis
    by (simp add: deleteStudent_def distinct_map_filter)
qed

lemma freshIds_tail: "freshIds (x # xs) st \<Longrightarrow> freshIds xs (applyOp x st)"
  by (cases x) simp_all

lemma runOps_distinct:
  "distinct (map id' (students st)) \<Longrightarrow> freshIds ops st \<Longrightarrow>
     distinct (map id' (students (runOps ops st)))"
proof (induction ops arbitrary: st)
  case Nil
  then show ?case by simp
next
  case (Cons x xs)
  from Cons.prems have "distinct (map id' (students (applyOp x st)))"
    by (rule applyOp_distinct)
  moreover from Cons.prems(2) have "freshIds xs (applyOp x st)"
    by (rule freshIds_tail)
  ultimately show ?case
    using Cons.IH by simp
qed

text \<open>
  C7. After any sequence of Add, Update and Delete calls that starts from the empty
  store and in which every Add draws an id that no record of the store carries at that
  moment, the ids of the records are pairwise distinct. The Update transition leaves the
  list of ids as it is, position by position: the record that replaces a matched one
  carries the same id.
\<close>

theorem ids_unique_and_stable:
  "(freshIds ops initialState \<longrightarrow>
      distinct (map id' (students (runOps ops initialState)))) \<and>
   map id' (students (studentReducer st (UPDATE_STUDENT p))) = map id' (students st) \<and>
   map id' (students (updateStudent s now st)) = map id' (students st)"
proof -
  have "distinct (map id' (students initialState))"
    by (simp add: initialState_def)
  then show ?thesis
    using runOps_distinct [of initialState ops]
    by (simp only: update_ids updateStudent_def) simp
qed

lemma exampleOps_fresh: "freshIds exampleOps initialState"
  unfolding exampleOps_def by code_simp

theorem ids_unique_and_stable_witness:
  "freshIds exampleOps initialState \<and>
   distinct (map id' (students (runOps exampleOps initialState))) \<and>
   map id' (students (runOps exampleOps initialState)) = [''id-1'', ''id-2'']"
proof -
  have "map id' (students (runOps exampleOps initialState)) = [''id-1'', ''id-2'']"
    unfolding exampleOps_def by code_simp
  with exampleOps_fresh ids_unique_and_stable [of exampleOps initialState ann ann 0]
  show ?thesis by blast
qed

section \<open>Timestamps\<close>

lemma students_addStudent:
  "students (addStudent d u now1 now2 st) = students st @ [newStudent d u now1 now2]"
  by (simp add: addStudent_def)

lemma updated_record:
  assumes "r \<in> set (students (updateStudent s now st))" and "id' r = id' s"
  shows "r = s\<lparr>updatedAt := now\<rparr>"
  using assms by (auto simp: updateStudent_def split: if_splits)

text \<open>
  C6, as stated, fails. \<open>addStudent\<close> reads the clock twice, and when the clock
  advances between the two readings (1000, then 1001) the record has \<open>createdAt\<close> 1000
  and \<open>updatedAt\<close> 1001. An update at the reading 1000 of a record whose \<open>updatedAt\<close> is
  1000 leaves \<open>updatedAt\<close> at 1000, not strictly greater. And \<open>updatedAt\<close> falls below
  \<open>createdAt\<close> when the clock was set back between the creation (2000) and the update
  (1000), or when the record submitted to the update carries a later \<open>createdAt\<close> (5000,
  updated at 2000): \<open>updateStudent\<close> stores what it is given.
\<close>

theorem timestamps_counterexample:
  "map createdAt (students (addStudent annData ''id-3'' 1000 1001 initialState)) = [1000] \<and>
   map updatedAt (students (addStudent annData ''id-3'' 1000 1001 initialState)) = [1001] \<and>
   map updatedAt (students (addStudent annData ''id-3'' 1000 1000 initialState)) = [1000] \<and>
   map updatedAt (students (updateStudent (newStudent annData ''id-3'' 1000 1000) 1000
      (addStudent annData ''id-3'' 1000 1000 initialState))) = [1000] \<and>
   map createdAt (students (updateStudent (newStudent annData ''id-3'' 2000 2000) 1000
      (addStudent annData ''id-3'' 2000 2000 initialState))) = [2000] \<and>
   map updatedAt (students (updateStudent (newStudent annData ''id-3'' 2000 2000) 1000
      (addStudent annData ''id-3'' 2000 2000 initialState))) = [1000] \<and>
   map createdAt (students
      (updateStudent (newStudent annData ''id-3'' 1000 1000\<lparr>createdAt := 5000\<rparr>) 2000
        (addStudent annData ''id-3'' 1000 1000 initialState))) = [5000] \<and>
   map updatedAt (students
      (updateStudent (newStudent annData ''id-3'' 1000 1000\<lparr>createdAt := 5000\<rparr>) 2000
        (addStudent annData ''id-3'' 1000 1000 initialState))) = [2000]"
  by (simp add: addStudent_def updateStudent_def newStudent_def initialState_def)

lemma students_updateStudent:
  "students (updateStudent s now st) =
     map (\<lambda>r. if id' r = id' s then s\<lparr>updatedAt := now\<rparr> else r) (students st)"
  by (simp add: updateStudent_def)

lemma update_stores:
  assumes "old \<in> set (students st)" and "id' old = id' s"
  shows "s\<lparr>updatedAt := now\<rparr> \<in> set (students (updateStudent s now st))"
proof -
  have "(\<lambda>r. if id' r = id' s then s\<lparr>updatedAt := now\<rparr> else r) old
          \<in> set (students (updateStudent s now st))"
    unfolding students_updateStudent set_map using assms(1) by (rule imageI)
  with assms(2) show ?thesis
    by simp
qed

text \<open>
  C6, amended. Add appends a record whose \<open>createdAt\<close> is the first and whose
  \<open>updatedAt\<close> is the second reading of the clock: they are equal when the two readings
  are equal, and \<open>createdAt\<close> is at most \<open>updatedAt\<close> when the clock did not go back.
  Update replaces every record that has the id of the submitted record by the submitted
  record with the reading of the clock as \<open>updatedAt\<close>, and keeps the others: when the
  store has a record of that id, the submitted record with the new \<open>updatedAt\<close> is in the
  store afterwards, and it is the only record of that id. Its \<open>createdAt\<close> is the
  submitted one and its \<open>updatedAt\<close> the reading: so \<open>updatedAt\<close> is at least \<open>createdAt\<close>
  when the reading is not before the submitted \<open>createdAt\<close>, and strictly greater than
  the \<open>updatedAt\<close> the record had in the store before the update when the clock has
  advanced past it.
\<close>

theorem timestamps_follow_clock:
  "students (addStudent d u now1 now2 st) = students st @ [newStudent d u now1 now2] \<and>
   createdAt (newStudent d u now1 now2) = now1 \<and>
   updatedAt (newStudent d u now1 now2) = now2 \<and>
   (now1 = now2 \<longrightarrow>
      createdAt (newStudent d u now1 now2) = updatedAt (newStudent d u now1 now2)) \<and>
   (now1 \<le> now2 \<longrightarrow>
      createdAt (newStudent d u now1 now2) \<le> updatedAt (newStudent d u now1 now2)) \<and>
   students (updateStudent s now st) =
     map (\<lambda>r. if id' r = id' s then s\<lparr>updatedAt := now\<rparr> else r) (students st) \<and>
   (old \<in> set (students st) \<and> id' old = id' s \<longrightarrow>
      (\<exists>r. r \<in> set (students (updateStudent s now st)) \<and> id' r = id' s \<and>
           r = s\<lparr>updatedAt := now\<rparr> \<and>
           createdAt r = createdAt s \<and> updatedAt r = now \<and>
           (createdAt s \<le> now \<longrightarrow> createdAt r \<le> updatedAt r) \<and>
           (updatedAt old < now \<longrightarrow> updatedAt old < updatedAt r))) \<and>
   (r \<in> set (students (updateStudent s now st)) \<and> id' r = id' s \<longrightarrow>
      r = s\<lparr>updatedAt := now\<rparr> \<and> createdAt r = createdAt s \<and> updatedAt r = now)"
proof -
  have "r = s\<lparr>updatedAt := now\<rparr> \<and> createdAt r = createdAt s \<and> updatedAt r = now"
    if "r \<in> set (students (updateStudent s now st))" and "id' r = id' s"
    using updated_record [OF that] by simp
  moreover have "\<exists>r. r \<in> set (students (updateStudent s now st)) \<and> id' r = id' s \<and>
           r = s\<lparr>updatedAt := now\<rparr> \<and>
           createdAt r = createdAt s \<and> updatedAt r = now \<and>
           (createdAt s \<le> now \<longrightarrow> createdAt r \<le> updatedAt r) \<and>
           (updatedAt old < now \<longrightarrow> updatedAt old < updatedAt r)"
    if "old \<in> set (students st)" and "id' old = id' s"
    using update_stores [OF that, of now] by simp
  ultimately show ?thesis
    using students_updateStudent [of s now st]
    by (simp add: students_addStudent newStudent_def) blast
qed

theorem timestamps_follow_clock_witness:
  "newStudent annData ''id-3'' 1000 1000
     \<in> set (students (addStudent annData ''id-3'' 1000 1000 initialState)) \<and>
   id' (newStudent annData ''id-3'' 1000 1000) = id' (newStudent annData ''id-3'' 1000 1000) \<and>
   (1000::int) = 1000 \<and>
   createdAt (newStudent annData ''id-3'' 1000 1000)
     = updatedAt (newStudent annData ''id-3'' 1000 1000) \<and>
   students (updateStudent (newStudent annData ''id-3'' 1000 1000) 2000
       (addStudent annData ''id-3'' 1000 1000 initialState))
     = [newStudent annData ''id-3'' 1000 1000\<lparr>updatedAt := 2000\<rparr>] \<and>
   createdAt (newStudent annData ''id-3'' 1000 1000\<lparr>updatedAt := 2000\<rparr>)
     \<le> updatedAt (newStudent annData ''id-3'' 1000 1000\<lparr>updatedAt := 2000\<rparr>) \<and>
   updatedAt (newStudent annData ''id-3'' 1000 1000)
     < updatedAt (newStudent annData ''id-3'' 1000 1000\<lparr>updatedAt := 2000\<rparr>)"
proof -
  have o: "newStudent annData ''id-3'' 1000 1000
     \<in> set (students (addStudent annData ''id-3'' 1000 1000 initialState))"
    by (simp add: addStudent_def)
  have c: "createdAt (newStudent annData ''id-3'' 1000 1000) \<le> 2000"
    and u: "updatedAt (newStudent annData ''id-3'' 1000 1000) < 2000"
    by (simp_all add: newStudent_def)
  have l: "students (addStudent annData ''id-3'' 1000 1000 initialState)
             = [newStudent annData ''id-3'' 1000 1000]"
    by (simp add: addStudent_def initialState_def)
  from o c u l
    timestamps_follow_clock [of annData "''id-3''" 1000 1000
      "addStudent annData ''id-3'' 1000 1000 initialState"
      "newStudent annData ''id-3'' 1000 1000" 2000
      "newStudent annData ''id-3'' 1000 1000"
      "newStudent annData ''id-3'' 1000 1000\<lparr>updatedAt := 2000\<rparr>"]
  show ?thesis
    by simp
qed

section \<open>What changes the record set\<close>

lemma reducer_changes:
  "students (studentReducer st a) \<noteq> students st \<Longrightarrow>
     isLifecycleAction a \<or> (\<exists>xs. a = LOAD_STUDENTS xs)"
  by (cases a) simp_all

lemma reducer_enters:
  "r \<in> set (students (studentReducer st a)) \<Longrightarrow> r \<notin> set (students st) \<Longrightarrow>
     a = ADD_STUDENT r \<or> a = UPDATE_STUDENT r \<or> (\<exists>xs. a = LOAD_STUDENTS xs \<and> r \<in> set xs)"
  by (cases a) (auto split: if_splits)

lemma reducer_leaves:
  "r \<in> set (students st) \<Longrightarrow> r \<notin> set (students (studentReducer st a)) \<Longrightarrow>
     a = DELETE_STUDENT (id' r) \<or> (\<exists>p. a = UPDATE_STUDENT p \<and> id' p = id' r) \<or>
     (\<exists>xs. a = LOAD_STUDENTS xs)"
  by (cases a) (auto split: if_splits)

text \<open>
  C9, as stated, fails: the reducer has a sixth action, \<open>LOAD_STUDENTS\<close>, which the
  provider's public \<open>dispatch\<close> accepts; it puts a record into the empty store and is
  none of Add, Update and Delete.
\<close>

theorem lifecycle_counterexample:
  "students (studentReducer initialState (LOAD_STUDENTS [ann])) \<noteq> students initialState \<and>
   students (studentReducer initialState (LOAD_STUDENTS [ann])) = [ann] \<and>
   \<not> isLifecycleAction (LOAD_STUDENTS [ann])"
  by (simp add: initialState_def)

text \<open>
  C9, amended. Only four actions change the record set: Add, Update, Delete and the
  wholesale replacement \<open>LOAD_STUDENTS\<close>; the two filter setters leave it as it is. A
  record that is new in the set was the payload of an Add or of an Update, or a member of
  the list of a \<open>LOAD_STUDENTS\<close>; a record that is gone from the set was deleted by its
  id, replaced by an Update with its id, or dropped by a \<open>LOAD_STUDENTS\<close>.
\<close>

theorem record_set_changes:
  "(students (studentReducer st a) \<noteq> students st \<longrightarrow>
      isLifecycleAction a \<or> (\<exists>xs. a = LOAD_STUDENTS xs)) \<and>
   students (setSearchTerm t st) = students st \<and>
   students (setCourseFilter c st) = students st \<and>
   (r \<in> set (students (studentReducer st a)) \<and> r \<notin> set (students st) \<longrightarrow>
      a = ADD_STUDENT r \<or> a = UPDATE_STUDENT r \<or>
      (\<exists>xs. a = LOAD_STUDENTS xs \<and> r \<in> set xs)) \<and>
   (r \<in> set (students st) \<and> r \<notin> set (students (studentReducer st a)) \<longrightarrow>
      a = DELETE_STUDENT (id' r) \<or> (\<exists>p. a = UPDATE_STUDENT p \<and> id' p = id' r) \<or>
      (\<exists>xs. a = LOAD_STUDENTS xs))"
  using reducer_changes [of st a] reducer_enters [of r st a] reducer_leaves [of r st a]
  by (simp add: setSearchTerm_def setCourseFilter_def)

theorem record_set_changes_witness:
  "students (studentReducer exampleState (DELETE_STUDENT ''id-1'')) \<noteq> students exampleState \<and>
   isLifecycleAction (DELETE_STUDENT ''id-1'') \<and>
   ann \<in> set (students exampleState) \<and>
   ann \<notin> set (students (studentReducer exampleState (DELETE_STUDENT ''id-1''))) \<and>
   DELETE_STUDENT ''id-1'' = DELETE_STUDENT (id' ann)"
proof -
  have a: "ann \<in> set (students exampleState)"
    by (simp add: exampleState_def initialState_def)
  have b: "ann \<notin> set (students (studentReducer exampleState (DELETE_STUDENT ''id-1'')))"
    by (simp add: exampleState_def initialState_def ann_def bob_def)
  from a b have c: "students (studentReducer exampleState (DELETE_STUDENT ''id-1''))
                      \<noteq> students exampleState"
    by metis
  have d: "id' ann = ''id-1''"
    by (simp add: ann_def)
  from a b c d record_set_changes [of exampleState "DELETE_STUDENT ''id-1''" "[]" None ann]
  show ?thesis
    by simp
qed

section \<open>Debouncing\<close>











end
